theory Spec2Isabelle
  imports Complex_Main
begin

section \<open>JavaScript \<open>Map\<close>: an insertion-ordered dictionary\<close>

text \<open>
  \<open>frame-cache.js\<close> relies on the iteration order of the built-in \<open>Map\<close>: keys are kept in
  the order of their first insertion, \<open>set\<close> on a key that is already present replaces the
  value in place (the position is kept), \<open>delete\<close> removes the key, and
  \<open>keys().next().value\<close> is the first key (\<open>undefined\<close> on an empty map). A \<open>Map\<close> is
  therefore an association list with pairwise distinct keys, oldest insertion first.
\<close>

type_synonym ('k, 'v) js_map = "('k \<times> 'v) list"

definition Map_has :: "'k \<Rightarrow> ('k, 'v) js_map \<Rightarrow> bool" where
  "Map_has k m = (k \<in> set (map fst m))"

definition Map_get :: "'k \<Rightarrow> ('k, 'v) js_map \<Rightarrow> 'v option" where
  "Map_get k m = map_of m k"

definition Map_delete :: "'k \<Rightarrow> ('k, 'v) js_map \<Rightarrow> ('k, 'v) js_map" where
  "Map_delete k m = filter (\<lambda>p. fst p \<noteq> k) m"

fun Map_set :: "'k \<Rightarrow> 'v \<Rightarrow> ('k, 'v) js_map \<Rightarrow> ('k, 'v) js_map" where
  "Map_set k v [] = [(k, v)]"
| "Map_set k v (p # m) = (if fst p = k then (k, v) # m else p # Map_set k v m)"

definition Map_first_key :: "('k, 'v) js_map \<Rightarrow> 'k option" where
  "Map_first_key m = (case m of [] \<Rightarrow> None | p # _ \<Rightarrow> Some (fst p))"


section \<open>The frame cache (\<open>src/renderer/js/frame-cache.js\<close>, class \<open>FrameCache\<close>)\<close>

text \<open>
  The object has three fields. \<open>pendingRequests\<close> maps a frame number to the promise of its
  running extraction; the promises are opaque to every operation of the class except
  \<open>getPendingRequest\<close>, so the map is kept as the list of its keys in insertion order.
  The type \<open>'f\<close> is the frame data that \<open>extractFn\<close> resolves with.
\<close>

record 'f FrameCache =
  maxSize :: nat
  cache :: "(int, 'f) js_map"
  pendingRequests :: "int list"

definition FrameCache_new :: "nat \<Rightarrow> 'f FrameCache" where
  "FrameCache_new n = \<lparr>maxSize = n, cache = [], pendingRequests = []\<rparr>"

text \<open>\<open>get\<close>: a miss returns \<open>null\<close>; a hit deletes and re-inserts the entry, which moves
  it to the end of the order.\<close>

definition FrameCache_get :: "int \<Rightarrow> 'f FrameCache \<Rightarrow> 'f option \<times> 'f FrameCache" where
  "FrameCache_get frameNumber c =
     (case Map_get frameNumber (cache c) of
        None \<Rightarrow> (None, c)
      | Some v \<Rightarrow>
          (Some v, c\<lparr>cache := Map_set frameNumber v (Map_delete frameNumber (cache c))\<rparr>))"

text \<open>\<open>set\<close>: when \<open>cache.size >= maxSize\<close> the first key of the map is deleted (deleting
  \<open>undefined\<close> from an empty map does nothing); then the entry is stored.\<close>

definition FrameCache_set :: "int \<Rightarrow> 'f \<Rightarrow> 'f FrameCache \<Rightarrow> 'f FrameCache" where
  "FrameCache_set frameNumber frameData c =
     (let m = (if length (cache c) \<ge> maxSize c
               then (case Map_first_key (cache c) of
                       None \<Rightarrow> cache c
                     | Some oldestKey \<Rightarrow> Map_delete oldestKey (cache c))
               else cache c)
      in c\<lparr>cache := Map_set frameNumber frameData m\<rparr>)"

definition FrameCache_has :: "int \<Rightarrow> 'f FrameCache \<Rightarrow> bool" where
  "FrameCache_has frameNumber c = Map_has frameNumber (cache c)"

definition FrameCache_clear :: "'f FrameCache \<Rightarrow> 'f FrameCache" where
  "FrameCache_clear c = c\<lparr>cache := [], pendingRequests := []\<rparr>"

text \<open>
  \<open>prefetch\<close>, first half: the \<open>for\<close> loop that collects \<open>framesToFetch\<close>. The loop
  variable \<open>i\<close> runs from 1 to \<open>radius\<close>; the forward candidate is tested against
  \<open>totalFrames\<close> only and the backward candidate against 0 only.
\<close>

function prefetch_loop ::
  "'f FrameCache \<Rightarrow> int \<Rightarrow> int \<Rightarrow> int \<Rightarrow> int \<Rightarrow> int list \<Rightarrow> int list" where
  "prefetch_loop c currentFrame totalFrames radius i framesToFetch =
     (if i \<le> radius then
        (let nextFrame = currentFrame + i;
             prevFrame = currentFrame - i;
             fs1 = (if nextFrame < totalFrames \<and> \<not> FrameCache_has nextFrame c
                       \<and> nextFrame \<notin> set (pendingRequests c)
                    then framesToFetch @ [nextFrame] else framesToFetch);
             fs2 = (if prevFrame \<ge> 0 \<and> \<not> FrameCache_has prevFrame c
                       \<and> prevFrame \<notin> set (pendingRequests c)
                    then fs1 @ [prevFrame] else fs1)
         in prefetch_loop c currentFrame totalFrames radius (i + 1) fs2)
      else framesToFetch)"
  by pat_completeness auto
termination
  by (relation "measure (\<lambda>(c, cur, tot, radius, i, fs). nat (radius + 1 - i))") auto

declare prefetch_loop.simps [simp del]

text \<open>
  \<open>prefetch\<close>, second half: \<open>forEach\<close> calls \<open>extractFn(frameNum)\<close> for every collected
  frame, in order, and records the returned promise under \<open>pendingRequests\<close>. The result
  pairs the list of frames \<open>extractFn\<close> was invoked on with the new cache object. The
  callbacks attached to each promise run later, from the event loop: they are
  \<open>prefetch_then\<close> and \<open>prefetch_catch\<close> below.
\<close>

fun pending_set :: "int \<Rightarrow> int list \<Rightarrow> int list" where
  "pending_set k ks = (if k \<in> set ks then ks else ks @ [k])"

definition FrameCache_prefetch ::
  "int \<Rightarrow> int \<Rightarrow> int \<Rightarrow> 'f FrameCache \<Rightarrow> int list \<times> 'f FrameCache" where
  "FrameCache_prefetch currentFrame totalFrames radius c =
     (let framesToFetch = prefetch_loop c currentFrame totalFrames radius 1 []
      in (framesToFetch,
          c\<lparr>pendingRequests := fold pending_set framesToFetch (pendingRequests c)\<rparr>))"

text \<open>The \<open>.then\<close> callback of a prefetched frame: store the data, drop the marker.\<close>

definition prefetch_then :: "int \<Rightarrow> 'f \<Rightarrow> 'f FrameCache \<Rightarrow> 'f FrameCache" where
  "prefetch_then frameNum data c =
     (let c' = FrameCache_set frameNum data c
      in c'\<lparr>pendingRequests := removeAll frameNum (pendingRequests c')\<rparr>)"

text \<open>The \<open>.catch\<close> callback: the failure is logged and the marker dropped.\<close>

definition prefetch_catch :: "int \<Rightarrow> 'f FrameCache \<Rightarrow> 'f FrameCache" where
  "prefetch_catch frameNum c = c\<lparr>pendingRequests := removeAll frameNum (pendingRequests c)\<rparr>"

definition getPendingRequest :: "int \<Rightarrow> 'f FrameCache \<Rightarrow> bool" where
  "getPendingRequest frameNumber c = (frameNumber \<in> set (pendingRequests c))"


section \<open>JavaScript numbers\<close>

text \<open>
  A JavaScript number is a finite value, \<open>NaN\<close>, or one of the two infinities. Finite
  values are kept as exact rationals: binary rounding, overflow and the sign of zero are
  not represented. Only the operations that the modelled functions apply are defined.
\<close>

datatype jsnum = Fin rat | NaN | PosInfinity | NegInfinity

text \<open>\<open>ToBoolean\<close> on a number: \<open>0\<close> and \<open>NaN\<close> are falsy.\<close>

fun js_truthy :: "jsnum \<Rightarrow> bool" where
  "js_truthy (Fin r) = (r \<noteq> 0)"
| "js_truthy NaN = False"
| "js_truthy PosInfinity = True"
| "js_truthy NegInfinity = True"

fun js_neg :: "jsnum \<Rightarrow> jsnum" where
  "js_neg (Fin r) = Fin (- r)"
| "js_neg NaN = NaN"
| "js_neg PosInfinity = NegInfinity"
| "js_neg NegInfinity = PosInfinity"

fun js_mul :: "jsnum \<Rightarrow> jsnum \<Rightarrow> jsnum" where
  "js_mul (Fin a) (Fin b) = Fin (a * b)"
| "js_mul NaN _ = NaN"
| "js_mul _ NaN = NaN"
| "js_mul PosInfinity (Fin b) = (if b = 0 then NaN else if b > 0 then PosInfinity else NegInfinity)"
| "js_mul NegInfinity (Fin b) = (if b = 0 then NaN else if b > 0 then NegInfinity else PosInfinity)"
| "js_mul (Fin a) PosInfinity = (if a = 0 then NaN else if a > 0 then PosInfinity else NegInfinity)"
| "js_mul (Fin a) NegInfinity = (if a = 0 then NaN else if a > 0 then NegInfinity else PosInfinity)"
| "js_mul PosInfinity PosInfinity = PosInfinity"
| "js_mul PosInfinity NegInfinity = NegInfinity"
| "js_mul NegInfinity PosInfinity = NegInfinity"
| "js_mul NegInfinity NegInfinity = PosInfinity"

fun js_div :: "jsnum \<Rightarrow> jsnum \<Rightarrow> jsnum" where
  "js_div (Fin a) (Fin b) =
     (if b \<noteq> 0 then Fin (a / b)
      else if a = 0 then NaN else if a > 0 then PosInfinity else NegInfinity)"
| "js_div NaN _ = NaN"
| "js_div _ NaN = NaN"
| "js_div (Fin a) PosInfinity = Fin 0"
| "js_div (Fin a) NegInfinity = Fin 0"
| "js_div PosInfinity (Fin b) = (if b \<ge> 0 then PosInfinity else NegInfinity)"
| "js_div NegInfinity (Fin b) = (if b \<ge> 0 then NegInfinity else PosInfinity)"
| "js_div PosInfinity PosInfinity = NaN"
| "js_div PosInfinity NegInfinity = NaN"
| "js_div NegInfinity PosInfinity = NaN"
| "js_div NegInfinity NegInfinity = NaN"

text \<open>\<open>Math.floor\<close>, and \<open>Math.round\<close>, which rounds a tie towards \<open>+\<infinity>\<close>
  (\<open>Math.round(-2.5)\<close> is \<open>-2\<close>), as \<^const>\<open>round\<close> does.\<close>

fun Math_floor :: "jsnum \<Rightarrow> jsnum" where
  "Math_floor (Fin r) = Fin (of_int \<lfloor>r\<rfloor>)"
| "Math_floor x = x"

fun Math_round :: "jsnum \<Rightarrow> jsnum" where
  "Math_round (Fin r) = Fin (of_int (round r))"
| "Math_round x = x"

subsection \<open>Reading numbers from strings\<close>

text \<open>
  \<open>Number(s)\<close>, \<open>parseFloat(s)\<close> and \<open>parseInt(s)\<close> are built-ins of the language. They
  are modelled on decimal text: optional white space, an optional sign, digits with an
  optional fraction and an optional exponent, and the word \<open>Infinity\<close>. The hexadecimal,
  octal and binary literals that \<open>Number\<close> and \<open>parseInt\<close> also read are not covered (the
  model reads \<open>0x10\<close> as \<open>NaN\<close> with \<open>Number\<close> and as \<open>0\<close> with \<open>parseInt\<close>).
\<close>

definition is_digit :: "char \<Rightarrow> bool" where
  "is_digit c = (c \<in> set ''0123456789'')"

definition is_space :: "char \<Rightarrow> bool" where
  "is_space c = (c \<in> set [CHR '' '', CHR 0x09, CHR 0x0A, CHR 0x0B, CHR 0x0C, CHR 0x0D])"

definition digits_val :: "string \<Rightarrow> int" where
  "digits_val ds = foldl (\<lambda>n c. 10 * n + (of_char c - 48)) 0 ds"

definition pow10 :: "int \<Rightarrow> rat" where
  "pow10 e = (if e \<ge> 0 then 10 ^ nat e else 1 / 10 ^ nat (- e))"

text \<open>
  \<open>scan_decimal s\<close> reads the longest prefix of \<open>s\<close> that is an unsigned decimal literal
  (\<open>12\<close>, \<open>12.\<close>, \<open>12.5\<close>, \<open>.5\<close>, each with an optional exponent \<open>e7\<close>, \<open>E-7\<close>)
  and returns its value with the unread rest, or \<open>None\<close> when no prefix is one.
\<close>

definition scan_exponent :: "string \<Rightarrow> (int \<times> string) option" where
  "scan_exponent s =
     (case s of
        [] \<Rightarrow> None
      | c # t \<Rightarrow>
          if c = CHR ''e'' \<or> c = CHR ''E'' then
            (let (neg, u) = (case t of
                               [] \<Rightarrow> (False, t)
                             | d # t' \<Rightarrow> if d = CHR ''-'' then (True, t')
                                         else if d = CHR ''+'' then (False, t') else (False, t));
                 ds = takeWhile is_digit u
             in if ds = [] then None
                else Some ((if neg then - digits_val ds else digits_val ds),
                           dropWhile is_digit u))
          else None)"

definition scan_decimal :: "string \<Rightarrow> (rat \<times> string) option" where
  "scan_decimal s =
     (let ip = takeWhile is_digit s;
          r1 = dropWhile is_digit s;
          (fp, r2) = (case r1 of
                        [] \<Rightarrow> ([], r1)
                      | c # t \<Rightarrow> if c = CHR ''.'' \<and> (ip \<noteq> [] \<or> takeWhile is_digit t \<noteq> [])
                                 then (takeWhile is_digit t, dropWhile is_digit t)
                                 else ([], r1))
      in if ip = [] \<and> fp = [] then None
         else (let m = of_int (digits_val ip) + of_int (digits_val fp) / 10 ^ length fp
               in case scan_exponent r2 of
                    None \<Rightarrow> Some (m, r2)
                  | Some (e, r3) \<Rightarrow> Some (m * pow10 e, r3)))"

text \<open>An unsigned numeric prefix: \<open>Infinity\<close> or a decimal literal.\<close>

definition scan_unsigned :: "string \<Rightarrow> (jsnum \<times> string) option" where
  "scan_unsigned s =
     (if take 8 s = ''Infinity'' then Some (PosInfinity, drop 8 s)
      else map_option (\<lambda>(r, rest). (Fin r, rest)) (scan_decimal s))"

definition scan_signed :: "string \<Rightarrow> (jsnum \<times> string) option" where
  "scan_signed s =
     (case s of
        [] \<Rightarrow> None
      | c # t \<Rightarrow>
          if c = CHR ''-'' then map_option (\<lambda>(x, rest). (js_neg x, rest)) (scan_unsigned t)
          else if c = CHR ''+'' then scan_unsigned t
          else scan_unsigned s)"

text \<open>\<open>parseFloat\<close>: leading white space is skipped, the longest numeric prefix is read
  and the rest is ignored.\<close>

definition js_parseFloat :: "string \<Rightarrow> jsnum" where
  "js_parseFloat s =
     (case scan_signed (dropWhile is_space s) of None \<Rightarrow> NaN | Some (x, _) \<Rightarrow> x)"

text \<open>\<open>Number\<close>: white space is trimmed on both sides, the empty string is \<open>0\<close>, and the
  whole of what remains must be a numeric literal.\<close>

definition js_trim :: "string \<Rightarrow> string" where
  "js_trim s = rev (dropWhile is_space (rev (dropWhile is_space s)))"

definition js_Number :: "string \<Rightarrow> jsnum" where
  "js_Number s =
     (let t = js_trim s
      in if t = [] then Fin 0
         else (case scan_signed t of
                 Some (x, []) \<Rightarrow> x
               | _ \<Rightarrow> NaN))"

text \<open>\<open>parseInt\<close> (radix 10): white space, an optional sign, then the longest run of
  digits; \<open>NaN\<close> when there is no digit.\<close>

definition js_parseInt :: "string \<Rightarrow> jsnum" where
  "js_parseInt s =
     (let t = dropWhile is_space s;
          (neg, u) = (case t of
                        [] \<Rightarrow> (False, t)
                      | c # t' \<Rightarrow> if c = CHR ''-'' then (True, t')
                                  else if c = CHR ''+'' then (False, t') else (False, t));
          ds = takeWhile is_digit u
      in if ds = [] then NaN
         else Fin (if neg then - of_int (digits_val ds) else of_int (digits_val ds)))"

text \<open>\<open>s.split('/')\<close>: the pieces of \<open>s\<close> between the separators; always at least one.\<close>

fun split_slash :: "string \<Rightarrow> string list" where
  "split_slash [] = [[]]"
| "split_slash (c # s) =
     (if c = CHR ''/'' then [] # split_slash s
      else (case split_slash s of
              [] \<Rightarrow> [[c]]
            | p # ps \<Rightarrow> (c # p) # ps))"


section \<open>The metadata prober (\<open>src/main/ffmpeg-service.js\<close>, \<open>getMetadata\<close>)\<close>

text \<open>
  What \<open>ffprobe\<close> reports. A field that the report lacks is \<open>undefined\<close> in JavaScript and
  \<open>None\<close> here. The JSON names of \<open>stream_duration\<close>, \<open>stream_width\<close>, \<open>stream_height\<close>
  and \<open>format_duration\<close> are \<open>duration\<close>, \<open>width\<close>, \<open>height\<close> and \<open>duration\<close>.
\<close>

record probe_stream =
  codec_type :: string
  r_frame_rate :: "string option"
  avg_frame_rate :: "string option"
  stream_duration :: "string option"
  stream_width :: "int option"
  stream_height :: "int option"
  codec_name :: "string option"

record probe_format =
  format_duration :: "string option"
  bit_rate :: "string option"
  format_name :: "string option"

record probe_data =
  streams :: "probe_stream list"
  format :: probe_format

datatype probe_error = ProbeFailed string | NoVideoStream

record descriptor =
  frameRate :: jsnum
  duration :: jsnum
  totalFrames :: jsnum
  width :: "int option"
  height :: "int option"
  codec :: "string option"
  isVFR :: bool
  bitRate :: jsnum
  format :: "string option"

text \<open>A string in a condition: \<open>undefined\<close> and the empty string are falsy.\<close>

definition str_truthy :: "string option \<Rightarrow> bool" where
  "str_truthy fld = (case fld of None \<Rightarrow> False | Some s \<Rightarrow> s \<noteq> [])"

text \<open>\<open>parseFloat\<close> and \<open>parseInt\<close> of a field that may be \<open>undefined\<close> (which reads as the
  text \<open>undefined\<close>, not a number).\<close>

definition parseFloat_field :: "string option \<Rightarrow> jsnum" where
  "parseFloat_field fld = (case fld of None \<Rightarrow> NaN | Some s \<Rightarrow> js_parseFloat s)"

definition parseInt_field :: "string option \<Rightarrow> jsnum" where
  "parseInt_field fld = (case fld of None \<Rightarrow> NaN | Some s \<Rightarrow> js_parseInt s)"

text \<open>\<open>a || b\<close> on numbers.\<close>

definition js_or :: "jsnum \<Rightarrow> jsnum \<Rightarrow> jsnum" where
  "js_or a b = (if js_truthy a then a else b)"

text \<open>
  Lines 59--60 and 62--63:
  \<^verbatim>\<open>const [num, den] = rate.split('/').map(Number); frameRate = den ? num / den : num;\<close>
  A missing second piece leaves \<open>den\<close> undefined, which is falsy, as are \<open>0\<close> and \<open>NaN\<close>.
\<close>

definition parse_rate :: "string \<Rightarrow> jsnum" where
  "parse_rate rate =
     (case map js_Number (split_slash rate) of
        [] \<Rightarrow> NaN
      | [num] \<Rightarrow> num
      | num # den # _ \<Rightarrow> if js_truthy den then js_div num den else num)"

text \<open>Lines 57--64: the rate before it is rounded for the descriptor.\<close>

definition resolveFrameRate :: "probe_stream \<Rightarrow> jsnum" where
  "resolveFrameRate videoStream =
     (if str_truthy (r_frame_rate videoStream) then parse_rate (the (r_frame_rate videoStream))
      else if str_truthy (avg_frame_rate videoStream)
           then parse_rate (the (avg_frame_rate videoStream))
      else Fin 30)"

text \<open>Lines 67--68.\<close>

definition resolveDuration :: "probe_stream \<Rightarrow> probe_format \<Rightarrow> jsnum" where
  "resolveDuration videoStream fmt =
     js_or (parseFloat_field (stream_duration videoStream))
       (js_or (parseFloat_field (format_duration fmt)) (Fin 0))"

text \<open>\<open>Math.round(frameRate * 1000) / 1000\<close>.\<close>

definition round3 :: "jsnum \<Rightarrow> jsnum" where
  "round3 x = js_div (Math_round (js_mul x (Fin 1000))) (Fin 1000)"

definition getMetadata :: "string + probe_data \<Rightarrow> probe_error + descriptor" where
  "getMetadata probe =
     (case probe of
        Inl err \<Rightarrow> Inl (ProbeFailed err)
      | Inr metadata \<Rightarrow>
          (case find (\<lambda>s. codec_type s = ''video'') (streams metadata) of
             None \<Rightarrow> Inl NoVideoStream
           | Some videoStream \<Rightarrow>
               (let frameRate = resolveFrameRate videoStream;
                    duration = resolveDuration videoStream (probe_data.format metadata);
                    totalFrames = Math_floor (js_mul frameRate duration);
                    isVFR = (r_frame_rate videoStream \<noteq> avg_frame_rate videoStream)
                in Inr \<lparr>frameRate = round3 frameRate,
                         duration = duration,
                         totalFrames = totalFrames,
                         width = stream_width videoStream,
                         height = stream_height videoStream,
                         codec = codec_name videoStream,
                         isVFR = isVFR,
                         bitRate = js_or (parseInt_field (bit_rate (probe_data.format metadata)))
                                     (Fin 0),
                         format = format_name (probe_data.format metadata)\<rparr>)))"

text \<open>The comparison \<open>x > 0\<close> and \<open>x >= 0\<close> on a number; every comparison with \<open>NaN\<close>
  is false.\<close>

fun js_pos :: "jsnum \<Rightarrow> bool" where
  "js_pos (Fin r) = (r > 0)"
| "js_pos PosInfinity = True"
| "js_pos _ = False"

fun js_nonneg :: "jsnum \<Rightarrow> bool" where
  "js_nonneg (Fin r) = (r \<ge> 0)"
| "js_nonneg PosInfinity = True"
| "js_nonneg _ = False"


section \<open>The frame extractor (\<open>src/main/ffmpeg-service.js\<close>, \<open>extractFrame\<close>)\<close>

text \<open>
  \<open>extractFrame\<close> spawns the decoder, registers three callbacks and a timer, and returns
  a promise:
  \<^item> \<open>stdout\<close> \<open>data\<close>: the chunk is appended to \<open>chunks\<close>;
  \<^item> \<open>close\<close> with the exit code (\<open>null\<close> when a signal ended the process);
  \<^item> \<open>error\<close> with a message;
  \<^item> a timer of 10000 ms.
  The flag \<open>settled\<close> lets the first of \<open>close\<close>, \<open>error\<close> and the timer decide the promise.
  Bytes are \<^typ>\<open>char\<close>s. The field \<open>data\<close> holds the bytes of \<open>Buffer.concat(chunks)\<close>;
  their base64 text, which the source stores, is a one-to-one encoding of them and is not
  spelled out. The child process is represented by the events it emits, so the argument
  list built for it (seek time and relative frame number) does not appear.
\<close>

record ExtractedFrame =
  frameNumber :: int
  timestamp :: jsnum
  data :: string
  format :: string

datatype extract_error = FFmpegExited "int option" | SpawnFailed string | ExtractionTimeout

datatype promise = Pending | Resolved ExtractedFrame | Rejected extract_error

datatype child_event = Data string | Close "int option" | Error string

record extract_state =
  chunks :: "string list"
  settled :: bool
  result :: promise
  timerArmed :: bool
  killed :: bool

definition extract_init :: extract_state where
  "extract_init = \<lparr>chunks = [], settled = False, result = Pending, timerArmed = True,
                    killed = False\<rparr>"

definition on_data :: "string \<Rightarrow> extract_state \<Rightarrow> extract_state" where
  "on_data chunk st = st\<lparr>chunks := chunks st @ [chunk]\<rparr>"

definition on_close :: "int \<Rightarrow> rat \<Rightarrow> int option \<Rightarrow> extract_state \<Rightarrow> extract_state" where
  "on_close frameNum rate code st =
     (if settled st then st
      else (let st1 = st\<lparr>settled := True, timerArmed := False\<rparr>
            in if code = Some 0 \<and> length (chunks st1) > 0
               then st1\<lparr>result := Resolved
                          \<lparr>frameNumber = frameNum,
                           timestamp = js_div (Fin (of_int frameNum)) (Fin rate),
                           data = concat (chunks st1),
                           format = ''jpeg''\<rparr>\<rparr>
               else st1\<lparr>result := Rejected (FFmpegExited code)\<rparr>))"

definition on_error :: "string \<Rightarrow> extract_state \<Rightarrow> extract_state" where
  "on_error msg st =
     (if settled st then st
      else st\<lparr>settled := True, timerArmed := False, result := Rejected (SpawnFailed msg)\<rparr>)"

definition on_timeout :: "extract_state \<Rightarrow> extract_state" where
  "on_timeout st =
     (if settled st then st
      else st\<lparr>settled := True, killed := True, result := Rejected ExtractionTimeout\<rparr>)"

definition timeout_ms :: nat where
  "timeout_ms = 10000"

fun handle_event :: "int \<Rightarrow> rat \<Rightarrow> child_event \<Rightarrow> extract_state \<Rightarrow> extract_state" where
  "handle_event n fr (Data chunk) st = on_data chunk st"
| "handle_event n fr (Close code) st = on_close n fr code st"
| "handle_event n fr (Error msg) st = on_error msg st"

text \<open>
  The event loop. Each event of the child process carries the time, in milliseconds after
  the spawn, at which its callback runs; callbacks run in the order of the list. The timer
  callback runs once, before the first event that is not earlier than 10000 ms, unless
  \<open>clearTimeout\<close> has disarmed it; when the events run out with the timer still armed the
  process is still alive at 10000 ms and the timer fires then.
\<close>

definition fire_timer :: "extract_state \<Rightarrow> extract_state" where
  "fire_timer st = (if timerArmed st then (on_timeout st)\<lparr>timerArmed := False\<rparr> else st)"

fun deliver :: "int \<Rightarrow> rat \<Rightarrow> (nat \<times> child_event) list \<Rightarrow> extract_state \<Rightarrow> extract_state" where
  "deliver n fr [] st = fire_timer st"
| "deliver n fr ((t, e) # evs) st =
     deliver n fr evs (handle_event n fr e (if t \<ge> timeout_ms then fire_timer st else st))"

definition extractFrame :: "int \<Rightarrow> rat \<Rightarrow> (nat \<times> child_event) list \<Rightarrow> promise \<times> bool" where
  "extractFrame frameNum rate evs =
     (let st = deliver frameNum rate evs extract_init in (result st, killed st))"

text \<open>
  The contract in the words of the specification, for comparison with \<open>extractFrame\<close>: the
  process completes within the bounded wait when a \<open>close\<close> or an \<open>error\<close> arrives before
  10000 ms; \<open>completion\<close> is the first such event, and \<open>output_before\<close> the bytes written
  to \<open>stdout\<close> before it.
\<close>

fun is_exit :: "child_event \<Rightarrow> bool" where
  "is_exit (Data _) = False"
| "is_exit (Close _) = True"
| "is_exit (Error _) = True"

fun chunk_of :: "child_event \<Rightarrow> string" where
  "chunk_of (Data b) = b"
| "chunk_of _ = []"

definition in_time :: "(nat \<times> child_event) list \<Rightarrow> child_event list" where
  "in_time evs = map snd (takeWhile (\<lambda>(t, e). t < timeout_ms) evs)"

definition completion :: "(nat \<times> child_event) list \<Rightarrow> child_event option" where
  "completion evs = find is_exit (in_time evs)"

definition output_before :: "(nat \<times> child_event) list \<Rightarrow> string" where
  "output_before evs = concat (map chunk_of (takeWhile (\<lambda>e. \<not> is_exit e) (in_time evs)))"

definition extract_contract :: "int \<Rightarrow> rat \<Rightarrow> (nat \<times> child_event) list \<Rightarrow> promise \<times> bool" where
  "extract_contract frameNum rate evs =
     (case completion evs of
        None \<Rightarrow> (Rejected ExtractionTimeout, True)
      | Some (Close code) \<Rightarrow>
          if code = Some 0 \<and> output_before evs \<noteq> []
          then (Resolved \<lparr>frameNumber = frameNum,
                          timestamp = js_div (Fin (of_int frameNum)) (Fin rate),
                          data = output_before evs,
                          format = ''jpeg''\<rparr>, False)
          else (Rejected (FFmpegExited code), False)
      | Some (Error msg) \<Rightarrow> (Rejected (SpawnFailed msg), False)
      | Some (Data _) \<Rightarrow> (Pending, False))"

definition nonempty_chunks :: "(nat \<times> child_event) list \<Rightarrow> bool" where
  "nonempty_chunks evs = list_all (\<lambda>(t, e). case e of Data b \<Rightarrow> b \<noteq> [] | _ \<Rightarrow> True) evs"


section \<open>The navigation coordinator (\<open>src/renderer/js/video-controller.js\<close>)\<close>

text \<open>
  The class \<open>VideoController\<close>. The sources hold a second, later copy of the class (after
  \<open>FrameCache\<close> in \<open>frame-cache.js\<close>) that adds volume and playback-rate fields; the
  functions modelled here read the same in both copies, and none of them touches the
  added fields.

  The object returned by \<open>getState\<close>:
\<close>

record player_state =
  isPlaying :: bool
  isPaused :: bool
  isFrameMode :: bool
  currentFrame :: int
  totalFrames :: int
  currentTime :: rat
  duration :: rat

text \<open>
  The controller reads three fields of the descriptor it received from the prober. This
  section covers descriptors whose three numbers are finite, with an integral frame count;
  frame indices are integers and times are rationals. Where the source divides by the
  frame rate the quotient is a \<^typ>\<open>jsnum\<close>, so that a rate of zero gives the non-finite
  value it gives in JavaScript.
\<close>

record video_metadata =
  frameRate :: rat
  duration :: rat
  totalFrames :: int

text \<open>The \<open><video>\<close> element: the two attributes the controller reads and writes.
  Assigning a non-finite number to \<open>currentTime\<close> raises a \<open>TypeError\<close>.\<close>

record video_element =
  currentTime :: rat
  paused :: bool

datatype js_exception = TypeError

text \<open>
  The fields of the constructor's \<open>State\<close> block, the cache and the \<open>video\<close> element.
  The overlay, the timeline bar, the CSS classes and the canvas pixels are presentation:
  they are written but never read back by the functions below, and are left out.
\<close>

record 'f VideoController =
  frameCache :: "'f FrameCache"
  filePath :: "string option"
  metadata :: "video_metadata option"
  currentFrame :: int
  isPlaying :: bool
  isFrameMode :: bool
  isStepping :: bool
  videoElement :: video_element

definition VideoController_new :: "'f VideoController" where
  "VideoController_new =
     \<lparr>frameCache = FrameCache_new 30, filePath = None, metadata = None, currentFrame = 0,
      isPlaying = False, isFrameMode = False, isStepping = False,
      videoElement = \<lparr>currentTime = 0, paused = True\<rparr>\<rparr>"

text \<open>\<open>videoElement.pause()\<close> and \<open>videoElement.play()\<close> flip the \<open>paused\<close> attribute at
  once; the \<open>pause\<close> and \<open>play\<close> events they queue reach the controller later, as
  \<open>on_pause_event\<close> and \<open>on_play_event\<close>.\<close>

definition video_pause :: "'f VideoController \<Rightarrow> 'f VideoController" where
  "video_pause s = s\<lparr>videoElement := (videoElement s)\<lparr>paused := True\<rparr>\<rparr>"

definition video_play :: "'f VideoController \<Rightarrow> 'f VideoController" where
  "video_play s = s\<lparr>videoElement := (videoElement s)\<lparr>paused := False\<rparr>\<rparr>"

definition enterFrameMode :: "'f VideoController \<Rightarrow> 'f VideoController" where
  "enterFrameMode s = (if \<not> isFrameMode s then s\<lparr>isFrameMode := True\<rparr> else s)"

text \<open>\<open>exitFrameMode\<close> clears the flag and then moves the video to
  \<open>currentFrame / frameRate\<close>; the assignment throws when the quotient is not finite, and
  reading \<open>this.metadata.frameRate\<close> throws when no metadata is loaded.\<close>

definition exitFrameMode :: "'f VideoController \<Rightarrow> 'f VideoController \<times> js_exception option" where
  "exitFrameMode s =
     (if isFrameMode s then
        (let s1 = s\<lparr>isFrameMode := False\<rparr>
         in case metadata s1 of
              None \<Rightarrow> (s1, Some TypeError)
            | Some md \<Rightarrow>
                (case js_div (Fin (of_int (currentFrame s1))) (Fin (frameRate md)) of
                   Fin targetTime \<Rightarrow>
                     (s1\<lparr>videoElement := (videoElement s1)\<lparr>currentTime := targetTime\<rparr>\<rparr>, None)
                 | _ \<Rightarrow> (s1, Some TypeError)))
      else (s, None))"

text \<open>The listeners of \<open>setupVideoEvents\<close>.\<close>

definition on_play_event :: "'f VideoController \<Rightarrow> 'f VideoController \<times> js_exception option" where
  "on_play_event s = exitFrameMode (s\<lparr>isPlaying := True\<rparr>)"

definition on_pause_event :: "'f VideoController \<Rightarrow> 'f VideoController" where
  "on_pause_event s = s\<lparr>isPlaying := False\<rparr>"

definition on_ended_event :: "'f VideoController \<Rightarrow> 'f VideoController" where
  "on_ended_event s = s\<lparr>isPlaying := False\<rparr>"

definition onVideoFrame :: "rat \<Rightarrow> 'f VideoController \<Rightarrow> 'f VideoController" where
  "onVideoFrame mediaTime s =
     (case metadata s of
        None \<Rightarrow> s
      | Some md \<Rightarrow>
          if \<not> isFrameMode s then s\<lparr>currentFrame := round (mediaTime * frameRate md)\<rparr> else s)"

text \<open>
  \<open>stepFrame\<close> is an \<open>async\<close> function with one \<open>await\<close>. \<open>stepFrame_begin\<close> is the part
  that runs at the call: the guard, the pause, the clamp, the early return, and the body of
  \<open>seekVideoToTime\<close> up to the point where the promise is handed back. It ends either
  finished or suspended on the seek, with the target frame and the target time.
\<close>

datatype 'f step_phase =
  Finished "'f VideoController"
| Awaiting "'f VideoController" int jsnum

definition seekVideoToTime :: "jsnum \<Rightarrow> 'f VideoController \<Rightarrow> 'f VideoController" where
  "seekVideoToTime time s =
     (case time of
        Fin t \<Rightarrow>
          if \<bar>currentTime (videoElement s) - t\<bar> < 1 / 1000 then s
          else s\<lparr>videoElement := (videoElement s)\<lparr>currentTime := t\<rparr>\<rparr>
      | _ \<Rightarrow> s)"

definition stepFrame_begin :: "int \<Rightarrow> 'f VideoController \<Rightarrow> 'f step_phase" where
  "stepFrame_begin delta s =
     (case metadata s of
        None \<Rightarrow> Finished s
      | Some md \<Rightarrow>
          if isStepping s then Finished s
          else
            (let s1 = (if isPlaying s then video_pause s else s);
                 s2 = s1\<lparr>isStepping := True\<rparr>;
                 targetFrame = max 0 (min (currentFrame s2 + delta) (totalFrames md - 1))
             in if targetFrame = currentFrame s2 then Finished (s2\<lparr>isStepping := False\<rparr>)
                else
                  (let frameDuration = js_div (Fin 1) (Fin (frameRate md));
                       targetTime = js_mul (Fin (of_int targetFrame)) frameDuration
                   in Awaiting (seekVideoToTime targetTime s2) targetFrame targetTime)))"

text \<open>
  \<open>stepFrame_resume\<close> is the rest, run when the awaited promise settles, on the state the
  controller has by then. The promise is rejected when the target time is not finite (the
  assignment to \<open>currentTime\<close> threw inside the promise); \<open>drawn\<close> tells whether the seek
  completed and \<open>drawVideoToCanvas\<close> returned without throwing. After the assignment to
  \<open>currentFrame\<close>, \<open>this.metadata.duration\<close> throws if the metadata has been reset in the
  meantime. Every exception is caught and logged, and the flag is cleared last.
\<close>

definition stepFrame_resume ::
  "bool \<Rightarrow> int \<Rightarrow> jsnum \<Rightarrow> 'f VideoController \<Rightarrow> 'f VideoController" where
  "stepFrame_resume drawn targetFrame targetTime s =
     (case targetTime of
        Fin t \<Rightarrow>
          if drawn then
            (let s1 = s\<lparr>currentFrame := targetFrame\<rparr>
             in case metadata s1 of
                  None \<Rightarrow> s1\<lparr>isStepping := False\<rparr>
                | Some md \<Rightarrow> (enterFrameMode s1)\<lparr>isStepping := False\<rparr>)
          else s\<lparr>isStepping := False\<rparr>
      | _ \<Rightarrow> s\<lparr>isStepping := False\<rparr>)"

text \<open>A call of \<open>stepFrame\<close> during which nothing else touches the controller.\<close>

definition stepFrame :: "bool \<Rightarrow> int \<Rightarrow> 'f VideoController \<Rightarrow> 'f VideoController" where
  "stepFrame drawn delta s =
     (case stepFrame_begin delta s of
        Finished s' \<Rightarrow> s'
      | Awaiting s' targetFrame targetTime \<Rightarrow> stepFrame_resume drawn targetFrame targetTime s')"

definition togglePlayPause :: "'f VideoController \<Rightarrow> 'f VideoController \<times> js_exception option" where
  "togglePlayPause s =
     (case metadata s of
        None \<Rightarrow> (s, None)
      | Some md \<Rightarrow>
          if isPlaying s then (video_pause s, None)
          else (case exitFrameMode s of
                  (s', Some e) \<Rightarrow> (s', Some e)
                | (s', None) \<Rightarrow> (video_play s', None)))"

definition play :: "'f VideoController \<Rightarrow> 'f VideoController \<times> js_exception option" where
  "play s =
     (case metadata s of
        None \<Rightarrow> (s, None)
      | Some md \<Rightarrow>
          (case exitFrameMode s of
             (s', Some e) \<Rightarrow> (s', Some e)
           | (s', None) \<Rightarrow> (video_play s', None)))"

definition pause :: "'f VideoController \<Rightarrow> 'f VideoController" where
  "pause s = (case metadata s of None \<Rightarrow> s | Some md \<Rightarrow> video_pause s)"

definition seekToProgress :: "bool \<Rightarrow> rat \<Rightarrow> 'f VideoController \<Rightarrow> 'f VideoController" where
  "seekToProgress drawn progress s =
     (case metadata s of
        None \<Rightarrow> s
      | Some md \<Rightarrow>
          (let targetTime = progress * duration md;
               targetFrame = round (targetTime * frameRate md)
           in if isFrameMode s \<or> paused (videoElement s)
              then stepFrame drawn 1 (s\<lparr>currentFrame := max 0 (targetFrame - 1)\<rparr>)
              else s\<lparr>videoElement := (videoElement s)\<lparr>currentTime := targetTime\<rparr>\<rparr>))"

text \<open>\<open>reset\<close>, as far as the fields above go.\<close>

definition reset :: "'f VideoController \<Rightarrow> 'f VideoController" where
  "reset s =
     s\<lparr>frameCache := FrameCache_clear (frameCache s), filePath := None, metadata := None,
       currentFrame := 0, isPlaying := False, isFrameMode := False, isStepping := False\<rparr>"

text \<open>\<open>getState\<close>: \<open>x || d\<close> replaces a zero by \<open>d\<close>, and \<open>metadata?.f\<close> is \<open>undefined\<close>
  (hence replaced too) when no metadata is loaded.\<close>

definition getState :: "'f VideoController \<Rightarrow> player_state" where
  "getState s =
     \<lparr>player_state.isPlaying = isPlaying s,
      isPaused = (\<not> isPlaying s \<and> metadata s \<noteq> None),
      player_state.isFrameMode = isFrameMode s,
      player_state.currentFrame = currentFrame s,
      player_state.totalFrames = (case metadata s of None \<Rightarrow> 0 | Some md \<Rightarrow> totalFrames md),
      player_state.currentTime =
        of_int (currentFrame s) /
          (case metadata s of
             None \<Rightarrow> 1
           | Some md \<Rightarrow> if frameRate md = 0 then 1 else frameRate md),
      player_state.duration = (case metadata s of None \<Rightarrow> 0 | Some md \<Rightarrow> duration md)\<rparr>"


section \<open>Notions used in the statements, and concrete inputs\<close>

text \<open>The keys of the cache in \<open>Map\<close> order: the first is the one \<open>set\<close> evicts.\<close>

definition keys_of :: "'f FrameCache \<Rightarrow> int list" where
  "keys_of c = map fst (cache c)"

text \<open>A sequence of \<open>set\<close> calls, first to last.\<close>

fun put_all :: "(int \<times> 'f) list \<Rightarrow> 'f FrameCache \<Rightarrow> 'f FrameCache" where
  "put_all [] c = c"
| "put_all ((k, v) # ps) c = put_all ps (FrameCache_set k v c)"


text \<open>A run of \<open>data\<close> events, each before the timeout and with a non-empty chunk.\<close>

definition data_prefix :: "(nat \<times> child_event) list \<Rightarrow> bool" where
  "data_prefix pre = list_all (\<lambda>(t, e). t < timeout_ms \<and> is_exit e = False \<and> chunk_of e \<noteq> []) pre"

text \<open>A cache of capacity 2 that is full.\<close>

definition full_cache :: "string FrameCache" where
  "full_cache = \<lparr>maxSize = 2, cache = [(1, ''a''), (2, ''b'')], pendingRequests = []\<rparr>"

text \<open>A default cache after \<open>prefetch(4, 100, extractFn, 1)\<close>: frames 5 and 3 are in flight.\<close>

definition in_flight_cache :: "string FrameCache" where
  "in_flight_cache = snd (FrameCache_prefetch 4 100 1 (FrameCache_new 30))"

text \<open>A video stream given its two rate fields and its duration, and a probe report
  with that stream alone.\<close>

definition stream_of :: "string option \<Rightarrow> string option \<Rightarrow> string option \<Rightarrow> probe_stream" where
  "stream_of r a d =
     \<lparr>codec_type = ''video'', r_frame_rate = r, avg_frame_rate = a, stream_duration = d,
      stream_width = Some 1920, stream_height = Some 1080, codec_name = Some ''h264''\<rparr>"

definition probe_of :: "string option \<Rightarrow> string option \<Rightarrow> string option \<Rightarrow> probe_data" where
  "probe_of r a d =
     \<lparr>streams = [stream_of r a d],
      probe_data.format = \<lparr>format_duration = d, bit_rate = Some ''128000'',
                           format_name = Some ''mp4''\<rparr>\<rparr>"

definition descriptor_of :: "jsnum \<Rightarrow> jsnum \<Rightarrow> jsnum \<Rightarrow> bool \<Rightarrow> descriptor" where
  "descriptor_of fr du tf vfr =
     \<lparr>descriptor.frameRate = fr, descriptor.duration = du, descriptor.totalFrames = tf,
      width = Some 1920, height = Some 1080, codec = Some ''h264'', isVFR = vfr,
      bitRate = Fin 128000, descriptor.format = Some ''mp4''\<rparr>"

text \<open>An NTSC file of one hour and half a second; a file whose rate is reported as
  \<open>0/0\<close>; a file whose first rate field is \<open>N/A\<close>; a file without rate fields; a file
  of 25 frames per second.\<close>

definition ntsc_probe :: probe_data where
  "ntsc_probe = probe_of (Some ''30000/1001'') (Some ''30000/1001'') (Some ''3600.5'')"

definition ntsc_descriptor :: descriptor where
  "ntsc_descriptor = descriptor_of (Fin (2997 / 100)) (Fin (7201 / 2)) (Fin 107907) False"

definition zero_rate_probe :: probe_data where
  "zero_rate_probe = probe_of (Some ''0/0'') (Some ''0/0'') (Some ''10.0'')"

definition zero_rate_descriptor :: descriptor where
  "zero_rate_descriptor = descriptor_of (Fin 0) (Fin 10) (Fin 0) False"

definition unparsable_rate_probe :: probe_data where
  "unparsable_rate_probe = probe_of (Some ''N/A'') (Some ''25/1'') (Some ''10.0'')"

definition unparsable_rate_descriptor :: descriptor where
  "unparsable_rate_descriptor = descriptor_of NaN (Fin 10) NaN True"

definition no_rate_probe :: probe_data where
  "no_rate_probe = probe_of None None (Some ''10.0'')"

definition no_rate_descriptor :: descriptor where
  "no_rate_descriptor = descriptor_of (Fin 30) (Fin 10) (Fin 300) False"

definition pal_probe :: probe_data where
  "pal_probe = probe_of (Some ''25/1'') (Some ''25/1'') (Some ''10.0'')"

definition pal_descriptor :: descriptor where
  "pal_descriptor = descriptor_of (Fin 25) (Fin 10) (Fin 250) False"

text \<open>A video of 100 frames (10 frames per second, 10 seconds), loaded and paused at
  frame 0; the same video playing at frame 0.\<close>

definition hundred_frames :: video_metadata where
  "hundred_frames = \<lparr>frameRate = 10, duration = 10, totalFrames = 100\<rparr>"

definition paused_100 :: "unit VideoController" where
  "paused_100 = VideoController_new\<lparr>metadata := Some hundred_frames\<rparr>"

definition playing_100 :: "unit VideoController" where
  "playing_100 =
     VideoController_new\<lparr>metadata := Some hundred_frames, isPlaying := True,
                          videoElement := \<lparr>currentTime = 0, paused = False\<rparr>\<rparr>"

text \<open>A decoder run that writes two chunks and exits with code 0 after 300 ms.\<close>

definition good_run :: "(nat \<times> child_event) list" where
  "good_run = [(100, Data ''ab''), (200, Data ''c''), (300, Close (Some 0))]"


section \<open>Properties of the frame cache\<close>

subsection \<open>The \<open>Map\<close> operations\<close>

lemma Map_set_keys:
  "map fst (Map_set k v m) = (if k \<in> set (map fst m) then map fst m else map fst m @ [k])"
  by (induction m) auto

lemma Map_set_get: "Map_get k (Map_set k v m) = Some v"
  by (induction m) (auto simp: Map_get_def)

lemma Map_delete_absent: "k \<notin> set (map fst m) \<Longrightarrow> Map_delete k m = m"
  by (induction m) (auto simp: Map_delete_def)

lemma Map_delete_head: "distinct (map fst (p # m)) \<Longrightarrow> Map_delete (fst p) (p # m) = m"
  using Map_delete_absent[of "fst p" m] by (simp add: Map_delete_def)

lemma evict_keys:
  assumes "distinct (map fst m)"
  shows "map fst (case Map_first_key m of None \<Rightarrow> m | Some k0 \<Rightarrow> Map_delete k0 m)
           = tl (map fst m)"
proof (cases m)
  case Nil
  then show ?thesis by (simp add: Map_first_key_def)
next
  case (Cons p m')
  then show ?thesis
    using Map_delete_head[of p m'] assms by (simp add: Map_first_key_def)
qed

subsection \<open>\<open>set\<close>\<close>

lemma length_keys_of: "length (keys_of c) = length (cache c)"
  by (simp add: keys_of_def)

lemma FrameCache_set_maxSize [simp]: "maxSize (FrameCache_set k v c) = maxSize c"
  by (simp add: FrameCache_set_def Let_def)

lemma FrameCache_set_keys:
  assumes "distinct (keys_of c)"
  shows "keys_of (FrameCache_set k v c) =
           (let ks = (if length (cache c) \<ge> maxSize c then tl (keys_of c) else keys_of c)
            in if k \<in> set ks then ks else ks @ [k])"
proof -
  define m where "m = (if length (cache c) \<ge> maxSize c
               then (case Map_first_key (cache c) of
                       None \<Rightarrow> cache c
                     | Some oldestKey \<Rightarrow> Map_delete oldestKey (cache c))
               else cache c)"
  have m: "map fst m = (if length (cache c) \<ge> maxSize c then tl (keys_of c) else keys_of c)"
    using evict_keys[of "cache c"] assms by (simp add: m_def keys_of_def)
  have "keys_of (FrameCache_set k v c) = map fst (Map_set k v m)"
    by (simp add: FrameCache_set_def keys_of_def m_def)
  also have "\<dots> = (if k \<in> set (map fst m) then map fst m else map fst m @ [k])"
    by (rule Map_set_keys)
  finally show ?thesis unfolding m by (simp add: Let_def)
qed

lemma FrameCache_set_get: "Map_get k (cache (FrameCache_set k v c)) = Some v"
  by (simp add: FrameCache_set_def Let_def Map_set_get)

lemma FrameCache_set_distinct:
  assumes "distinct (keys_of c)"
  shows "distinct (keys_of (FrameCache_set k v c))"
proof -
  have "distinct (tl (keys_of c))" using assms by (rule distinct_tl)
  then show ?thesis using assms by (simp add: FrameCache_set_keys Let_def)
qed

lemma FrameCache_set_size:
  assumes "distinct (keys_of c)" "1 \<le> maxSize c" "length (cache c) \<le> maxSize c"
  shows "length (cache (FrameCache_set k v c)) \<le> maxSize c"
proof -
  have "length (keys_of (FrameCache_set k v c)) \<le> maxSize c"
    using assms by (auto simp: FrameCache_set_keys[OF assms(1)] Let_def length_keys_of)
  then show ?thesis by (simp add: length_keys_of)
qed

lemma put_all_invariant:
  assumes "distinct (keys_of c)" "1 \<le> maxSize c" "length (cache c) \<le> maxSize c"
  shows "distinct (keys_of (put_all puts c)) \<and> maxSize (put_all puts c) = maxSize c
       \<and> length (cache (put_all puts c)) \<le> maxSize c"
  using assms
proof (induction puts arbitrary: c)
  case Nil
  then show ?case by simp
next
  case (Cons p puts)
  obtain k v where p: "p = (k, v)" by (cases p)
  have "distinct (keys_of (FrameCache_set k v c))"
    using Cons.prems(1) by (rule FrameCache_set_distinct)
  moreover have "length (cache (FrameCache_set k v c)) \<le> maxSize (FrameCache_set k v c)"
    using FrameCache_set_size[OF Cons.prems] by simp
  moreover have "1 \<le> maxSize (FrameCache_set k v c)"
    using Cons.prems(2) by simp
  ultimately show ?case
    using Cons.IH[of "FrameCache_set k v c"] p by simp
qed

text \<open>
  Claim C3, as the specification states it, fails: with the cache at capacity, \<open>set\<close> on a
  key that is already cached still evicts the oldest entry. In \<open>full_cache\<close> (capacity 2,
  keys 1 and 2) storing frame 2 again removes frame 1.
\<close>

theorem set_existing_key_evicts_counterexample:
  "FrameCache_has 1 full_cache \<and> FrameCache_has 2 full_cache
   \<and> length (cache full_cache) = maxSize full_cache
   \<and> \<not> FrameCache_has 1 (FrameCache_set 2 ''c'' full_cache)"
  by (simp add: full_cache_def FrameCache_has_def Map_has_def FrameCache_set_def
      Map_first_key_def Map_delete_def)

text \<open>
  Claim C3, amended. For a cache whose keys are distinct (as the keys of a \<open>Map\<close> are), of
  capacity at least 1 and holding at most \<open>maxSize\<close> entries:
  \<^item> \<open>set(k, v)\<close> evicts exactly when the cache is at capacity, whether or not \<open>k\<close> is a new
    key, and the entry it evicts is the first of the \<open>Map\<close> order; a new key is then
    appended at the end of the order, while a key that is already present keeps its place;
  \<^item> \<open>k\<close> maps to \<open>v\<close> afterwards;
  \<^item> after any sequence of \<open>set\<close> calls the cache holds at most \<open>maxSize\<close> entries.
\<close>

theorem set_evicts_first_key_at_capacity:
  assumes "distinct (keys_of c)" "1 \<le> maxSize c" "length (cache c) \<le> maxSize c"
  shows "keys_of (FrameCache_set k v c) =
           (let ks = (if length (cache c) \<ge> maxSize c then tl (keys_of c) else keys_of c)
            in if k \<in> set ks then ks else ks @ [k])
       \<and> Map_get k (cache (FrameCache_set k v c)) = Some v
       \<and> length (cache (put_all puts c)) \<le> maxSize c"
  using FrameCache_set_keys[OF assms(1), of k v] FrameCache_set_get[of k v c]
    put_all_invariant[OF assms, of puts]
  by simp

text \<open>The amended claim at \<open>full_cache\<close>: storing the new frame 3 evicts frame 1, the
  first key, and two further frames leave the size at 2.\<close>

theorem set_evicts_first_key_at_capacity_witness:
  "distinct (keys_of full_cache) \<and> 1 \<le> maxSize full_cache
   \<and> length (cache full_cache) \<le> maxSize full_cache
   \<and> keys_of (FrameCache_set 3 ''c'' full_cache) = [2, 3]
   \<and> Map_get 3 (cache (FrameCache_set 3 ''c'' full_cache)) = Some ''c''
   \<and> length (cache (put_all [(3, ''c''), (4, ''d'')] full_cache)) \<le> 2"
  using set_evicts_first_key_at_capacity[of full_cache 3 "''c''" "[(3, ''c''), (4, ''d'')]"]
  by (simp add: full_cache_def keys_of_def)

text \<open>A hit of \<open>get\<close> moves the key to the end of the order, so the first key is the one
  that was inserted or read least recently.\<close>

lemma FrameCache_get_keys:
  assumes "distinct (keys_of c)" "Map_get k (cache c) = Some v"
  shows "keys_of (snd (FrameCache_get k c)) = removeAll k (keys_of c) @ [k]"
proof -
  have "map fst (Map_delete k (cache c)) = removeAll k (map fst (cache c))"
    by (induction "cache c" arbitrary: c) (simp_all add: Map_delete_def removeAll_filter_not_eq filter_map comp_def eq_commute)
  then show ?thesis
    using assms(2) by (simp add: FrameCache_get_def keys_of_def Map_set_keys)
qed

subsection \<open>\<open>prefetch\<close>\<close>










lemma in_flight_eval: "in_flight_cache = \<lparr>maxSize = 30, cache = [], pendingRequests = [5, 3]\<rparr>"
  by (simp add: in_flight_cache_def FrameCache_prefetch_def FrameCache_new_def prefetch_loop.simps
      FrameCache_has_def Map_has_def Let_def)






subsection \<open>\<open>clear\<close> and extractions in flight\<close>

text \<open>
  Claim C5, as the specification states it, fails: frame 5 is in flight in
  \<open>in_flight_cache\<close>; after \<open>clear()\<close> the \<open>.then\<close> callback of that extraction still runs
  \<open>this.set(5, data)\<close>, and the cleared cache then contains frame 5.
\<close>

theorem completion_after_clear_counterexample:
  "getPendingRequest 5 in_flight_cache
   \<and> \<not> FrameCache_has 5 (FrameCache_clear in_flight_cache)
   \<and> FrameCache_has 5 (prefetch_then 5 ''frame'' (FrameCache_clear in_flight_cache))"
  by (simp add: in_flight_eval getPendingRequest_def FrameCache_clear_def prefetch_then_def
      FrameCache_set_def FrameCache_has_def Map_has_def Map_first_key_def Let_def)

text \<open>
  Claim C5, amended. \<open>clear()\<close> empties the cache and forgets every in-flight marker, so
  right after it frame \<open>k\<close> is neither cached nor in flight (and a later \<open>prefetch\<close> may
  request it again); the extraction that was running is not cancelled, and when it
  completes its callback stores the frame: the cache then holds exactly the entry for
  \<open>k\<close>, and \<open>k\<close> has no in-flight marker.
\<close>

theorem completion_after_clear_is_stored:
  "\<not> FrameCache_has k (FrameCache_clear c) \<and> \<not> getPendingRequest k (FrameCache_clear c)
   \<and> cache (prefetch_then k d (FrameCache_clear c)) = [(k, d)]
   \<and> FrameCache_has k (prefetch_then k d (FrameCache_clear c))
   \<and> \<not> getPendingRequest k (prefetch_then k d (FrameCache_clear c))"
  by (simp add: getPendingRequest_def FrameCache_clear_def prefetch_then_def
      FrameCache_set_def FrameCache_has_def Map_has_def Map_first_key_def Let_def)


section \<open>Properties of the metadata prober\<close>

subsection \<open>Evaluating the concrete probe reports\<close>

lemmas number_eval = js_Number_def js_trim_def scan_signed_def scan_unsigned_def scan_decimal_def
  scan_exponent_def is_digit_def is_space_def digits_val_def js_parseFloat_def js_parseInt_def pow10_def

lemma Number_30000: "js_Number ''30000'' = Fin 30000" by (simp add: number_eval)
lemma Number_1001: "js_Number ''1001'' = Fin 1001" by (simp add: number_eval)
lemma Number_0: "js_Number ''0'' = Fin 0" by (simp add: number_eval)
lemma Number_25: "js_Number ''25'' = Fin 25" by (simp add: number_eval)
lemma Number_1: "js_Number ''1'' = Fin 1" by (simp add: number_eval)
lemma Number_N: "js_Number ''N'' = NaN" by (simp add: number_eval)
lemma Number_A: "js_Number ''A'' = NaN" by (simp add: number_eval)
lemma parseFloat_3600_5: "js_parseFloat ''3600.5'' = Fin (7201 / 2)" by (simp add: number_eval)
lemma parseFloat_10_0: "js_parseFloat ''10.0'' = Fin 10" by (simp add: number_eval)
lemma parseInt_128000: "js_parseInt ''128000'' = Fin 128000" by (simp add: number_eval)

lemma parse_rate_ntsc: "parse_rate ''30000/1001'' = Fin (30000 / 1001)"
  by (simp add: parse_rate_def Number_30000 Number_1001)
lemma parse_rate_zero: "parse_rate ''0/0'' = Fin 0"
  by (simp add: parse_rate_def Number_0)
lemma parse_rate_NA: "parse_rate ''N/A'' = NaN"
  by (simp add: parse_rate_def Number_N Number_A)
lemma parse_rate_pal: "parse_rate ''25/1'' = Fin 25"
  by (simp add: parse_rate_def Number_25 Number_1)

lemma floor_ntsc_1: "\<lfloor>(60001001 / 2002 :: rat)\<rfloor> = 29970" by (simp add: floor_unique)
lemma floor_ntsc_2: "\<lfloor>(108015000 / 1001 :: rat)\<rfloor> = 107907" by (simp add: floor_unique)
lemma floor_ntsc_3: "\<lfloor>(21581397 / 200 :: rat)\<rfloor> = 107906" by (simp add: floor_unique)

lemma round3_ntsc: "round3 (Fin (30000 / 1001)) = Fin (2997 / 100)"
  by (simp add: round3_def round_def floor_ntsc_1)

lemmas metadata_eval = getMetadata_def probe_of_def stream_of_def descriptor_of_def
  resolveFrameRate_def str_truthy_def resolveDuration_def parseFloat_field_def js_or_def
  parseInt_field_def parseInt_128000 parseFloat_10_0 parseFloat_3600_5 Let_def

lemma getMetadata_ntsc: "getMetadata (Inr ntsc_probe) = Inr ntsc_descriptor"
  by (simp add: metadata_eval ntsc_probe_def ntsc_descriptor_def parse_rate_ntsc round3_ntsc
      floor_ntsc_2 del: split_slash.simps)

lemma getMetadata_zero_rate: "getMetadata (Inr zero_rate_probe) = Inr zero_rate_descriptor"
  by (simp add: metadata_eval zero_rate_probe_def zero_rate_descriptor_def parse_rate_zero
      round3_def del: split_slash.simps)

lemma getMetadata_unparsable:
  "getMetadata (Inr unparsable_rate_probe) = Inr unparsable_rate_descriptor"
  by (simp add: metadata_eval unparsable_rate_probe_def unparsable_rate_descriptor_def
      parse_rate_NA round3_def del: split_slash.simps)

lemma getMetadata_no_rate: "getMetadata (Inr no_rate_probe) = Inr no_rate_descriptor"
  by (simp add: metadata_eval no_rate_probe_def no_rate_descriptor_def round3_def
      del: split_slash.simps)

lemma getMetadata_pal: "getMetadata (Inr pal_probe) = Inr pal_descriptor"
  by (simp add: metadata_eval pal_probe_def pal_descriptor_def parse_rate_pal round3_def
      del: split_slash.simps)

subsection \<open>The fields of a descriptor\<close>

lemma getMetadata_fields:
  assumes "getMetadata (Inr p) = Inr d"
      and "find (\<lambda>s. codec_type s = ''video'') (streams p) = Some vs"
  shows "descriptor.frameRate d = round3 (resolveFrameRate vs)"
    and "descriptor.duration d = resolveDuration vs (probe_data.format p)"
    and "descriptor.totalFrames d
           = Math_floor (js_mul (resolveFrameRate vs) (descriptor.duration d))"
  using assms by (auto simp: getMetadata_def Let_def)

lemma round3_exact: "r * 1000 \<in> \<int> \<Longrightarrow> round3 (Fin r) = Fin r"
  by (auto simp: round3_def elim!: Ints_cases)

lemma round3_pos:
  assumes "r \<ge> 1 / 2000"
  shows "js_pos (round3 (Fin r))"
proof -
  have "r * 1000 + 1 / 2 \<ge> 1" using assms by simp
  then have "round (r * 1000) \<ge> 1" unfolding round_def by (simp add: le_floor_iff)
  then show ?thesis by (simp add: round3_def)
qed

text \<open>
  Claim C7, as the specification states it, fails: the frame count is computed from the
  rate before rounding, and the descriptor carries the rounded rate. For the NTSC file
  (rate \<open>30000/1001\<close>, duration 3600.5 s) the descriptor has \<open>frameRate = 29.97\<close> and
  \<open>totalFrames = 107907\<close>, while \<open>floor(29.97 * 3600.5) = 107906\<close>.
\<close>

theorem totalFrames_rounded_rate_counterexample:
  "getMetadata (Inr ntsc_probe) = Inr ntsc_descriptor
   \<and> descriptor.totalFrames ntsc_descriptor
       \<noteq> Math_floor (js_mul (descriptor.frameRate ntsc_descriptor)
                              (descriptor.duration ntsc_descriptor))"
  by (simp add: getMetadata_ntsc) (simp add: ntsc_descriptor_def descriptor_of_def floor_ntsc_3)

text \<open>
  Claim C7, amended. For the descriptor \<open>d\<close> of a successful probe whose video stream is
  \<open>vs\<close>: \<open>totalFrames = floor(rate * duration)\<close> where \<open>rate\<close> is the resolved frame rate
  before rounding and \<open>duration\<close> is the descriptor's duration; the descriptor's
  \<open>frameRate\<close> is that rate rounded to 3 decimals; so \<open>totalFrames\<close> equals
  \<open>floor(frameRate * duration)\<close> whenever the resolved rate has at most 3 decimals.
\<close>

theorem getMetadata_totalFrames:
  assumes "getMetadata (Inr p) = Inr d"
      and "find (\<lambda>s. codec_type s = ''video'') (streams p) = Some vs"
  shows "descriptor.frameRate d = round3 (resolveFrameRate vs)
       \<and> descriptor.totalFrames d
           = Math_floor (js_mul (resolveFrameRate vs) (descriptor.duration d))
       \<and> (resolveFrameRate vs = Fin r \<and> r * 1000 \<in> \<int> \<longrightarrow>
            descriptor.totalFrames d
              = Math_floor (js_mul (descriptor.frameRate d) (descriptor.duration d)))"
  using getMetadata_fields(1,3)[OF assms] round3_exact[of r] by simp

text \<open>The amended claim at the 25 fps file.\<close>

theorem getMetadata_totalFrames_witness:
  "getMetadata (Inr pal_probe) = Inr pal_descriptor
   \<and> find (\<lambda>s. codec_type s = ''video'') (streams pal_probe)
       = Some (stream_of (Some ''25/1'') (Some ''25/1'') (Some ''10.0''))
   \<and> resolveFrameRate (stream_of (Some ''25/1'') (Some ''25/1'') (Some ''10.0'')) = Fin 25
   \<and> (25 :: rat) * 1000 \<in> \<int>
   \<and> descriptor.totalFrames pal_descriptor
       = Math_floor (js_mul (descriptor.frameRate pal_descriptor)
                            (descriptor.duration pal_descriptor))"
proof -
  have f: "find (\<lambda>s. codec_type s = ''video'') (streams pal_probe)
       = Some (stream_of (Some ''25/1'') (Some ''25/1'') (Some ''10.0''))"
    by (simp add: pal_probe_def probe_of_def stream_of_def)
  have r: "resolveFrameRate (stream_of (Some ''25/1'') (Some ''25/1'') (Some ''10.0'')) = Fin 25"
    by (simp add: resolveFrameRate_def stream_of_def str_truthy_def parse_rate_pal
        del: split_slash.simps)
  have i: "(25 :: rat) * 1000 \<in> \<int>" by simp
  have "descriptor.totalFrames pal_descriptor
       = Math_floor (js_mul (descriptor.frameRate pal_descriptor)
                            (descriptor.duration pal_descriptor))"
    using getMetadata_totalFrames[OF getMetadata_pal f, of 25] r i by blast
  then show ?thesis
    using getMetadata_pal f r i by blast
qed

text \<open>
  Claim C8, as the specification states it, fails: a rate field that is present is parsed
  and used whatever it yields. \<open>r_frame_rate = "0/0"\<close> gives \<open>frameRate = 0\<close>, which is not
  positive; \<open>r_frame_rate = "N/A"\<close> gives \<open>NaN\<close>, not 30, even with a valid
  \<open>avg_frame_rate\<close>.
\<close>

theorem frameRate_not_positive_counterexample:
  "getMetadata (Inr zero_rate_probe) = Inr zero_rate_descriptor
   \<and> \<not> js_pos (descriptor.frameRate zero_rate_descriptor)
   \<and> getMetadata (Inr unparsable_rate_probe) = Inr unparsable_rate_descriptor
   \<and> descriptor.frameRate unparsable_rate_descriptor \<noteq> Fin 30"
  by (simp add: getMetadata_zero_rate getMetadata_unparsable zero_rate_descriptor_def
      unparsable_rate_descriptor_def descriptor_of_def)

text \<open>
  Claim C8, amended. For the descriptor \<open>d\<close> of a successful probe whose video stream is
  \<open>vs\<close>: the frame rate is 30 when both rate fields are absent or empty; \<open>frameRate > 0\<close>
  when the rate field in use resolves to a finite rate of at least 0.0005; and
  \<open>totalFrames \<ge> 0\<close> when that rate and the duration are finite and not negative.
\<close>

theorem getMetadata_rate_invariant:
  assumes "getMetadata (Inr p) = Inr d"
      and "find (\<lambda>s. codec_type s = ''video'') (streams p) = Some vs"
  shows "(\<not> str_truthy (r_frame_rate vs) \<and> \<not> str_truthy (avg_frame_rate vs) \<longrightarrow>
            descriptor.frameRate d = Fin 30)
       \<and> (resolveFrameRate vs = Fin r \<and> r \<ge> 1 / 2000 \<longrightarrow> js_pos (descriptor.frameRate d))
       \<and> (resolveFrameRate vs = Fin r \<and> r \<ge> 0 \<and> descriptor.duration d = Fin du \<and> du \<ge> 0
            \<longrightarrow> js_nonneg (descriptor.totalFrames d))"
proof -
  note fr = getMetadata_fields(1)[OF assms] and tf = getMetadata_fields(3)[OF assms]
  have a: "\<not> str_truthy (r_frame_rate vs) \<and> \<not> str_truthy (avg_frame_rate vs) \<longrightarrow>
            descriptor.frameRate d = Fin 30"
    using round3_exact[of 30] by (simp add: fr resolveFrameRate_def)
  have b: "resolveFrameRate vs = Fin r \<and> r \<ge> 1 / 2000 \<longrightarrow> js_pos (descriptor.frameRate d)"
    using round3_pos[of r] by (simp add: fr)
  have c: "resolveFrameRate vs = Fin r \<and> r \<ge> 0 \<and> descriptor.duration d = Fin du \<and> du \<ge> 0
            \<longrightarrow> js_nonneg (descriptor.totalFrames d)"
    by (auto simp: tf)
  show ?thesis using a b c by blast
qed

text \<open>The amended claim at the file without rate fields.\<close>

theorem getMetadata_rate_invariant_witness:
  "getMetadata (Inr no_rate_probe) = Inr no_rate_descriptor
   \<and> find (\<lambda>s. codec_type s = ''video'') (streams no_rate_probe)
       = Some (stream_of None None (Some ''10.0''))
   \<and> descriptor.frameRate no_rate_descriptor = Fin 30
   \<and> js_pos (descriptor.frameRate no_rate_descriptor)
   \<and> js_nonneg (descriptor.totalFrames no_rate_descriptor)"
proof -
  have f: "find (\<lambda>s. codec_type s = ''video'') (streams no_rate_probe)
       = Some (stream_of None None (Some ''10.0''))"
    by (simp add: no_rate_probe_def probe_of_def stream_of_def)
  have r: "resolveFrameRate (stream_of None None (Some ''10.0'')) = Fin 30"
    by (simp add: resolveFrameRate_def stream_of_def str_truthy_def)
  have s: "\<not> str_truthy (r_frame_rate (stream_of None None (Some ''10.0'')))
         \<and> \<not> str_truthy (avg_frame_rate (stream_of None None (Some ''10.0'')))"
    by (simp add: stream_of_def str_truthy_def)
  have d: "descriptor.duration no_rate_descriptor = Fin 10"
    by (simp add: no_rate_descriptor_def descriptor_of_def)
  have p: "(30 :: rat) \<ge> 1 / 2000" and n: "(30 :: rat) \<ge> 0" and n': "(10 :: rat) \<ge> 0"
    by simp_all
  have "descriptor.frameRate no_rate_descriptor = Fin 30
   \<and> js_pos (descriptor.frameRate no_rate_descriptor)
   \<and> js_nonneg (descriptor.totalFrames no_rate_descriptor)"
    using getMetadata_rate_invariant[OF getMetadata_no_rate f, of 30 10] r s d p n n' by blast
  then show ?thesis
    using getMetadata_no_rate f by blast
qed


section \<open>Properties of the frame extractor\<close>

text \<open>Once the promise is settled and the timer disarmed, no later event changes it.\<close>

lemma settled_stays:
  "settled st \<Longrightarrow> \<not> timerArmed st \<Longrightarrow>
     result (deliver n fr evs st) = result st \<and> killed (deliver n fr evs st) = killed st"
proof (induction evs arbitrary: st)
  case Nil
  then show ?case by (simp add: fire_timer_def)
next
  case (Cons p evs)
  obtain t e where p: "p = (t, e)" by (cases p)
  let ?st' = "handle_event n fr e (if t \<ge> timeout_ms then fire_timer st else st)"
  have "settled ?st' \<and> \<not> timerArmed ?st' \<and> result ?st' = result st \<and> killed ?st' = killed st"
    using Cons.prems
    by (cases e) (simp_all add: fire_timer_def on_data_def on_close_def on_error_def)
  then show ?case using Cons.IH[of ?st'] p by simp
qed

text \<open>The event loop against the contract, for a run that has so far delivered the
  \<open>data\<close> events \<open>pre\<close>.\<close>

lemma in_time_prefix: "data_prefix pre \<Longrightarrow> in_time (pre @ evs) = map snd pre @ in_time evs"
  by (induction pre) (auto simp: in_time_def data_prefix_def)

lemma find_prefix: "data_prefix pre \<Longrightarrow> find is_exit (map snd pre @ xs) = find is_exit xs"
  by (induction pre) (auto simp: data_prefix_def)

lemma takeWhile_prefix:
  "data_prefix pre \<Longrightarrow>
     takeWhile (\<lambda>e. \<not> is_exit e) (map snd pre @ xs)
       = map snd pre @ takeWhile (\<lambda>e. \<not> is_exit e) xs"
  by (induction pre) (auto simp: data_prefix_def)

lemma output_prefix_nonempty:
  "data_prefix pre \<Longrightarrow> (concat (map chunk_of (map snd pre)) \<noteq> []) = (pre \<noteq> [])"
  by (induction pre) (auto simp: data_prefix_def)

lemma data_prefix_snoc:
  assumes "data_prefix pre" "t < timeout_ms" "b \<noteq> []"
  shows "data_prefix (pre @ [(t, Data b)])"
  using assms by (simp add: data_prefix_def)

lemma deliver_contract:
  assumes "nonempty_chunks evs" "data_prefix pre"
      and "chunks st = map chunk_of (map snd pre)" "\<not> settled st" "timerArmed st" "\<not> killed st"
  shows "(result (deliver n fr evs st), killed (deliver n fr evs st))
           = extract_contract n fr (pre @ evs)"
  using assms
proof (induction evs arbitrary: pre st)
  case Nil
  have "in_time pre = map snd pre"
    using in_time_prefix[OF Nil.prems(2), of "[]"] by (simp add: in_time_def)
  then have "completion pre = None"
    using find_prefix[OF Nil.prems(2), of "[]"] by (simp add: completion_def)
  then show ?case
    using Nil.prems(4,5) by (simp add: fire_timer_def on_timeout_def extract_contract_def)
next
  case (Cons p evs)
  obtain t e where p: "p = (t, e)" by (cases p)
  have ne: "nonempty_chunks evs" using Cons.prems(1) by (simp add: nonempty_chunks_def)
  show ?case
  proof (cases "t \<ge> timeout_ms")
    case True
    define st' where "st' = handle_event n fr e (fire_timer st)"
    have st': "settled st'" "\<not> timerArmed st'" "result st' = Rejected ExtractionTimeout"
      "killed st'"
      using Cons.prems(4,5) unfolding st'_def
      by (cases e; simp add: fire_timer_def on_timeout_def on_data_def on_close_def on_error_def)+
    have d: "deliver n fr (p # evs) st = deliver n fr evs st'"
      using True p by (simp add: st'_def)
    have it: "in_time (pre @ p # evs) = map snd pre"
      using True p in_time_prefix[OF Cons.prems(2), of "p # evs"] by (simp add: in_time_def)
    have "completion (pre @ p # evs) = None"
      using find_prefix[OF Cons.prems(2), of "[]"] by (simp add: completion_def it)
    then have "extract_contract n fr (pre @ p # evs) = (Rejected ExtractionTimeout, True)"
      by (simp add: extract_contract_def)
    then show ?thesis using settled_stays[OF st'(1,2), of n fr evs] st'(3,4) d by simp
  next
    case False
    then have t: "t < timeout_ms" by simp
    have d: "deliver n fr (p # evs) st = deliver n fr evs (handle_event n fr e st)"
      using False p by simp
    have it: "in_time (pre @ p # evs) = map snd pre @ e # in_time evs"
      using t p in_time_prefix[OF Cons.prems(2), of "p # evs"] by (simp add: in_time_def)
    show ?thesis
    proof (cases e)
      case (Data b)
      have b: "b \<noteq> []" using Cons.prems(1) p Data by (simp add: nonempty_chunks_def)
      have dp: "data_prefix (pre @ [p])"
        using data_prefix_snoc[OF Cons.prems(2) t b] p Data by simp
      define st' where "st' = handle_event n fr e st"
      have st': "chunks st' = map chunk_of (map snd (pre @ [p]))" "\<not> settled st'"
        "timerArmed st'" "\<not> killed st'"
        using Cons.prems(3-6) Data p by (simp_all add: st'_def on_data_def)
      show ?thesis using Cons.IH[OF ne dp st'] d by (simp add: st'_def)
    next
      case (Close code)
      define st' where "st' = on_close n fr code st"
      have st': "settled st'" "\<not> timerArmed st'"
        using Cons.prems(4) by (simp_all add: st'_def on_close_def Let_def)
      have c: "completion (pre @ p # evs) = Some (Close code)"
        using find_prefix[OF Cons.prems(2)] Close by (simp add: completion_def it)
      have ob: "output_before (pre @ p # evs) = concat (map chunk_of (map snd pre))"
        using takeWhile_prefix[OF Cons.prems(2)] Close by (simp add: output_before_def it)
      have ne': "(concat (map chunk_of (map snd pre)) \<noteq> []) = (pre \<noteq> [])"
        by (rule output_prefix_nonempty[OF Cons.prems(2)])
      have len: "(length (chunks st) > 0) = (pre \<noteq> [])"
        using Cons.prems(3) by simp
      have "(result st', killed st') = extract_contract n fr (pre @ p # evs)"
        unfolding extract_contract_def c ob ne' st'_def on_close_def
        using Cons.prems(3,4,6) len by (simp add: Let_def)
      then show ?thesis using settled_stays[OF st', of n fr evs] d Close
        by (simp add: st'_def)
    next
      case (Error msg)
      define st' where "st' = on_error msg st"
      have st': "settled st'" "\<not> timerArmed st'"
        using Cons.prems(4) by (simp_all add: st'_def on_error_def)
      have c: "completion (pre @ p # evs) = Some (Error msg)"
        using find_prefix[OF Cons.prems(2)] Error by (simp add: completion_def it)
      have "(result st', killed st') = extract_contract n fr (pre @ p # evs)"
        using Cons.prems(4,6) by (simp add: extract_contract_def c on_error_def st'_def)
      then show ?thesis using settled_stays[OF st', of n fr evs] d Error
        by (simp add: st'_def)
    qed
  qed
qed

lemma extractFrame_eq_contract:
  assumes "nonempty_chunks evs"
  shows "extractFrame n fr evs = extract_contract n fr evs"
  using deliver_contract[OF assms, of "[]" extract_init n fr]
  by (simp add: extractFrame_def extract_init_def data_prefix_def Let_def)

lemma find_holds: "find P xs = Some x \<Longrightarrow> P x"
  by (induction xs) (auto split: if_splits)

lemma completion_is_exit: "completion evs \<noteq> Some (Data b)"
proof
  assume "completion evs = Some (Data b)"
  then have "is_exit (Data b)" unfolding completion_def by (rule find_holds)
  then show False by simp
qed

lemma contract_resolved:
  "(\<exists>f. fst (extract_contract n fr evs) = Resolved f)
     \<longleftrightarrow> (completion evs = Some (Close (Some 0)) \<and> output_before evs \<noteq> [])"
  using completion_is_exit[of evs]
  by (auto simp: extract_contract_def split: option.splits child_event.splits)

lemma contract_timeout:
  "(extract_contract n fr evs = (Rejected ExtractionTimeout, True)) \<longleftrightarrow> completion evs = None"
  using completion_is_exit[of evs]
  by (auto simp: extract_contract_def split: option.splits child_event.splits)

lemma contract_settles: "fst (extract_contract n fr evs) \<noteq> Pending"
  using completion_is_exit[of evs]
  by (auto simp: extract_contract_def split: option.splits child_event.splits)

text \<open>
  Claim C6. When every \<open>data\<close> chunk carries at least one byte, \<open>extractFrame\<close> does what
  the contract says: it resolves with a frame exactly when the process closes with exit
  code 0 before 10000 ms, having written some output; when the process closes otherwise,
  or an \<open>error\<close> event arrives first, it rejects with the failure; and when neither
  happens before 10000 ms the timer kills the process and the call rejects with the
  timeout. The promise is settled in every case.
\<close>

theorem extractFrame_meets_contract:
  assumes "nonempty_chunks evs"
  shows "extractFrame n fr evs = extract_contract n fr evs
       \<and> ((\<exists>f. fst (extractFrame n fr evs) = Resolved f)
            \<longleftrightarrow> (completion evs = Some (Close (Some 0)) \<and> output_before evs \<noteq> []))
       \<and> ((extractFrame n fr evs = (Rejected ExtractionTimeout, True))
            \<longleftrightarrow> completion evs = None)
       \<and> fst (extractFrame n fr evs) \<noteq> Pending"
  unfolding extractFrame_eq_contract[OF assms]
  using contract_resolved[of n fr evs] contract_timeout[of n fr evs] contract_settles[of n fr evs]
  by simp

text \<open>The claim at \<open>good_run\<close>: frame 150 at 30 fps, two chunks, exit code 0.\<close>

theorem extractFrame_meets_contract_witness:
  "nonempty_chunks good_run
   \<and> completion good_run = Some (Close (Some 0)) \<and> output_before good_run = ''abc''
   \<and> extractFrame 150 30 good_run
       = (Resolved \<lparr>frameNumber = 150, timestamp = Fin 5, data = ''abc'', format = ''jpeg''\<rparr>,
          False)"
proof -
  have n: "nonempty_chunks good_run" by (simp add: nonempty_chunks_def good_run_def)
  have c: "completion good_run = Some (Close (Some 0))"
    by (simp add: completion_def in_time_def good_run_def timeout_ms_def)
  have ob: "output_before good_run = ''abc''"
    by (simp add: output_before_def in_time_def good_run_def timeout_ms_def)
  have "extractFrame 150 30 good_run = extract_contract 150 30 good_run"
    using extractFrame_meets_contract[OF n, of 150 30] by blast
  then show ?thesis using n c ob by (simp add: extract_contract_def)
qed


section \<open>Properties of the navigation coordinator\<close>

text \<open>A step that is not ignored and whose seek and draw succeed lands on the clamped
  target and keeps the metadata.\<close>

lemma stepFrame_target:
  assumes "metadata s = Some md" "\<not> isStepping s" "frameRate md \<noteq> 0"
  shows "currentFrame (stepFrame True delta s)
           = max 0 (min (currentFrame s + delta) (totalFrames md - 1))"
    and "metadata (stepFrame True delta s) = Some md"
  using assms
  by (auto simp add: stepFrame_def stepFrame_begin_def stepFrame_resume_def Let_def
      video_pause_def seekVideoToTime_def enterFrameMode_def)

text \<open>The continuation after the \<open>await\<close> writes the target whatever the other fields
  have become in the meantime.\<close>

lemma stepFrame_resume_target:
  "currentFrame (stepFrame_resume True targetFrame (Fin t) s) = targetFrame"
  by (simp add: stepFrame_resume_def Let_def enterFrameMode_def split: option.splits)

text \<open>A step whose clamped target is the current frame touches nothing but the \<open>paused\<close>
  attribute of the video, and that only when the controller is playing.\<close>

lemma stepFrame_same:
  assumes "metadata s = Some md"
      and "max 0 (min (currentFrame s + delta) (totalFrames md - 1)) = currentFrame s"
  shows "stepFrame drawn delta s = (if isPlaying s \<and> \<not> isStepping s then video_pause s else s)"
  using assms
  by (auto simp add: stepFrame_def stepFrame_begin_def Let_def video_pause_def)

lemmas controller_eval = paused_100_def playing_100_def hundred_frames_def VideoController_new_def
  FrameCache_new_def stepFrame_def stepFrame_begin_def stepFrame_resume_def seekVideoToTime_def
  enterFrameMode_def video_pause_def video_play_def seekToProgress_def getState_def Let_def
  on_pause_event_def

text \<open>
  Claim C1. Let a video be loaded with a non-zero frame rate, let no step be in progress,
  and let \<open>i\<close>, a valid frame index, be the clamped target of \<open>stepFrame(delta)\<close>. When the
  call has completed, its native seek and canvas draw having succeeded, \<open>getState\<close>
  reports \<open>currentFrame = i\<close> and \<open>currentTime = i / frameRate\<close>.
\<close>

theorem stepFrame_then_getState:
  assumes "metadata s = Some md" "\<not> isStepping s" "frameRate md \<noteq> 0"
      and "max 0 (min (currentFrame s + delta) (totalFrames md - 1)) = i"
      and "0 \<le> i" "i < totalFrames md"
  shows "player_state.currentFrame (getState (stepFrame True delta s)) = i
       \<and> player_state.currentTime (getState (stepFrame True delta s)) = of_int i / frameRate md"
  using stepFrame_target[OF assms(1-3), of delta] assms(3,4)
  by (simp add: getState_def)

text \<open>The claim on the paused 100-frame video, stepping by 7 from frame 0.\<close>

theorem stepFrame_then_getState_witness:
  "metadata paused_100 = Some hundred_frames \<and> \<not> isStepping paused_100
   \<and> frameRate hundred_frames \<noteq> 0
   \<and> max 0 (min (currentFrame paused_100 + 7) (totalFrames hundred_frames - 1)) = 7
   \<and> (0 :: int) \<le> 7 \<and> 7 < totalFrames hundred_frames
   \<and> player_state.currentFrame (getState (stepFrame True 7 paused_100)) = 7
   \<and> player_state.currentTime (getState (stepFrame True 7 paused_100)) = 7 / 10"
proof -
  have h: "metadata paused_100 = Some hundred_frames" "\<not> isStepping paused_100"
    "frameRate hundred_frames \<noteq> 0"
    "max 0 (min (currentFrame paused_100 + 7) (totalFrames hundred_frames - 1)) = 7"
    "(0 :: int) \<le> 7" "7 < totalFrames hundred_frames"
    by (simp_all add: paused_100_def hundred_frames_def VideoController_new_def)
  have fr: "of_int 7 / frameRate hundred_frames = (7 / 10 :: rat)"
    by (simp add: hundred_frames_def)
  have "player_state.currentFrame (getState (stepFrame True 7 paused_100)) = 7
      \<and> player_state.currentTime (getState (stepFrame True 7 paused_100)) = 7 / 10"
    using stepFrame_then_getState[OF h] unfolding fr .
  then show ?thesis using h by blast
qed

text \<open>
  Claim C2, as the specification states it, fails at the end of the range: on the paused
  100-frame video \<open>seekToProgress(1)\<close> computes the target \<open>round(1 * 10 * 10) = 100\<close>, which
  is not a frame of the video, and \<open>stepFrame\<close> clamps to the last frame, 99.
\<close>

theorem seekToProgress_end_counterexample:
  "isPaused (getState paused_100) \<and> player_state.totalFrames (getState paused_100) = 100
   \<and> currentFrame (seekToProgress True 1 paused_100)
       \<noteq> round (1 * duration hundred_frames * frameRate hundred_frames)"
  by (simp add: controller_eval)

text \<open>
  Claim C2, amended. While the player is paused or in exact-frame mode, with no step in
  progress, a call \<open>seekToProgress(f)\<close> whose target
  \<open>T = round(f * duration * frameRate)\<close> is at least 1 lands \<open>currentFrame\<close> on \<open>T\<close> when
  \<open>T \<le> totalFrames - 1\<close>, and on the last frame \<open>totalFrames - 1\<close> otherwise (the seek and
  draw having succeeded).
\<close>

theorem seekToProgress_lands:
  assumes "metadata s = Some md" "isFrameMode s \<or> paused (videoElement s)" "\<not> isStepping s"
      and "T = round (progress * duration md * frameRate md)" "1 \<le> T" "1 \<le> totalFrames md"
  shows "currentFrame (seekToProgress True progress s) = min T (totalFrames md - 1)"
proof -
  let ?s' = "s\<lparr>currentFrame := max 0 (T - 1)\<rparr>"
  have fr: "frameRate md \<noteq> 0"
  proof
    assume "frameRate md = 0"
    then have "T = 0" using assms(4) by simp
    then show False using assms(5) by simp
  qed
  have "seekToProgress True progress s = stepFrame True 1 ?s'"
    using assms(1,2,4) by (auto simp add: seekToProgress_def Let_def)
  moreover have "currentFrame (stepFrame True 1 ?s')
                   = max 0 (min (currentFrame ?s' + 1) (totalFrames md - 1))"
    using stepFrame_target(1)[of ?s' md 1] assms(1,3) fr by simp
  ultimately show ?thesis using assms(5,6) by simp
qed

text \<open>The scenario of the specification: \<open>seekToProgress(0.5)\<close> on the paused 100-frame
  video yields frame 50.\<close>

theorem seekToProgress_lands_witness:
  "metadata paused_100 = Some hundred_frames
   \<and> (isFrameMode paused_100 \<or> paused (videoElement paused_100))
   \<and> \<not> isStepping paused_100
   \<and> round (1 / 2 * duration hundred_frames * frameRate hundred_frames) = 50
   \<and> (1 :: int) \<le> 50 \<and> 1 \<le> totalFrames hundred_frames
   \<and> currentFrame (seekToProgress True (1 / 2) paused_100) = 50"
proof -
  have h: "metadata paused_100 = Some hundred_frames"
    "isFrameMode paused_100 \<or> paused (videoElement paused_100)"
    "\<not> isStepping paused_100"
    by (simp_all add: paused_100_def hundred_frames_def VideoController_new_def)
  have t: "round (1 / 2 * duration hundred_frames * frameRate hundred_frames) = 50"
    by (simp add: hundred_frames_def)
  have b: "(1 :: int) \<le> 50" "1 \<le> totalFrames hundred_frames"
    by (simp_all add: hundred_frames_def)
  have m: "min 50 (totalFrames hundred_frames - 1) = 50"
    by (simp add: hundred_frames_def)
  have "currentFrame (seekToProgress True (1 / 2) paused_100) = 50"
    using seekToProgress_lands[OF h t[symmetric] b] unfolding m .
  then show ?thesis using h t b by blast
qed

text \<open>
  Claim C9, as the specification states it, fails while the video is playing: \<open>stepFrame\<close>
  pauses the video before it computes the target, so at frame 0 \<open>stepFrame(-1)\<close> changes
  the \<open>paused\<close> attribute, and once the \<open>pause\<close> event has been handled \<open>getState\<close> no
  longer reports \<open>isPlaying\<close>.
\<close>

theorem stepFrame_boundary_pauses_counterexample:
  "metadata playing_100 = Some hundred_frames \<and> currentFrame playing_100 = 0
   \<and> stepFrame True (- 1) playing_100 \<noteq> playing_100
   \<and> paused (videoElement (stepFrame True (- 1) playing_100))
       \<noteq> paused (videoElement playing_100)
   \<and> getState (on_pause_event (stepFrame True (- 1) playing_100)) \<noteq> getState playing_100"
  by (simp add: controller_eval)

text \<open>
  Claim C9, amended. With a video loaded, \<open>stepFrame(-1)\<close> at frame 0, and \<open>stepFrame(+1)\<close>
  at frame \<open>totalFrames - 1\<close>, move nothing: no seek is made and the frame index, the mode
  and the flags of the controller are unchanged. The only effect is that a playing video
  is paused (when no other step is in progress); when the player is not playing the call
  is a no-op.
\<close>

theorem stepFrame_boundary:
  assumes "metadata s = Some md"
  shows "(currentFrame s = 0 \<longrightarrow>
            stepFrame drawn (- 1) s
              = (if isPlaying s \<and> \<not> isStepping s then video_pause s else s))
       \<and> (currentFrame s = totalFrames md - 1 \<and> 0 \<le> currentFrame s \<longrightarrow>
            stepFrame drawn 1 s
              = (if isPlaying s \<and> \<not> isStepping s then video_pause s else s))"
  using stepFrame_same[OF assms, of "- 1" drawn] stepFrame_same[OF assms, of 1 drawn]
  by auto

text \<open>The amended claim at frame 0 of the 100-frame video, paused and playing.\<close>

theorem stepFrame_boundary_witness:
  "metadata paused_100 = Some hundred_frames \<and> currentFrame paused_100 = 0
   \<and> stepFrame True (- 1) paused_100 = paused_100
   \<and> metadata playing_100 = Some hundred_frames
   \<and> currentFrame playing_100 = 0
   \<and> stepFrame True (- 1) playing_100 = video_pause playing_100"
proof -
  have h: "metadata paused_100 = Some hundred_frames" "currentFrame paused_100 = 0"
    by (simp_all add: paused_100_def VideoController_new_def)
  have np: "\<not> (isPlaying paused_100 \<and> \<not> isStepping paused_100)"
    by (simp add: paused_100_def VideoController_new_def)
  have h': "metadata playing_100 = Some hundred_frames" "currentFrame playing_100 = 0"
    by (simp_all add: playing_100_def VideoController_new_def)
  have p: "isPlaying playing_100 \<and> \<not> isStepping playing_100"
    by (simp add: playing_100_def VideoController_new_def)
  have a: "stepFrame True (- 1) paused_100 = paused_100"
    using stepFrame_boundary[OF h(1), of True] h(2) np by presburger
  have c: "stepFrame True (- 1) playing_100 = video_pause playing_100"
    using stepFrame_boundary[OF h'(1), of True] h'(2) p by presburger
  show ?thesis using a c h h' by blast
qed

text \<open>
  Claim C10. With no media loaded (\<open>metadata\<close> is \<open>null\<close>), \<open>stepFrame\<close>,
  \<open>togglePlayPause\<close>, \<open>play\<close>, \<open>pause\<close> and \<open>seekToProgress\<close> return at once, without an
  exception, and leave the whole controller as it was.
\<close>

theorem navigation_without_media:
  assumes "metadata s = None"
  shows "stepFrame drawn delta s = s \<and> togglePlayPause s = (s, None) \<and> play s = (s, None)
       \<and> pause s = s \<and> seekToProgress drawn progress s = s"
  using assms
  by (simp add: stepFrame_def stepFrame_begin_def togglePlayPause_def play_def pause_def
      seekToProgress_def)

text \<open>The claim on a freshly constructed controller.\<close>

theorem navigation_without_media_witness:
  "metadata (VideoController_new :: unit VideoController) = None
   \<and> stepFrame True 1 (VideoController_new :: unit VideoController) = VideoController_new
   \<and> togglePlayPause (VideoController_new :: unit VideoController) = (VideoController_new, None)
   \<and> play (VideoController_new :: unit VideoController) = (VideoController_new, None)
   \<and> pause (VideoController_new :: unit VideoController) = VideoController_new
   \<and> seekToProgress True (1 / 2) (VideoController_new :: unit VideoController)
       = VideoController_new"
proof -
  have h: "metadata (VideoController_new :: unit VideoController) = None"
    by (simp add: VideoController_new_def)
  show ?thesis
    using navigation_without_media[OF h, of True 1 "1 / 2"] h by blast
qed


end
